theory Spec2Isabelle
  imports Complex_Main "HOL-Library.Multiset"
begin

section \<open>Data model (types.ts)\<close>

text \<open>
  \<^verbatim>\<open>RunResultDetail\<close> is both the result one run reports and the row the leaderboard keeps
  for a proposal. The two optional fields are options. JavaScript numbers are modelled
  exactly: \<open>int\<close> for the counters, \<open>real\<close> for the seconds.
\<close>

record RunResultDetail =
  name :: string
  model :: string
  algorithm :: string
  version :: string
  batches :: int
  time :: real
  verified :: bool
  score :: int
  completedWaves :: int
  lastVerifiedWave :: "int option"
  error :: "string option"

record ModelProposal =
  id :: string
  modelName :: string
  algorithmName :: string
  code :: string
  active :: bool

section \<open>Array helpers of the language\<close>



section \<open>Leaderboard aggregation (App: updateLeaderboard)\<close>


section \<open>Ranking (RankingTable: sortedResults)\<close>

text \<open>
  The table sorts by one of the columns whose header can be clicked, or by the initial
  column \<^verbatim>\<open>'score'\<close>; these are the values the state \<^verbatim>\<open>sortField\<close> takes.
\<close>

datatype sort_field = F_model | F_score | F_completedWaves | F_batches | F_time

datatype js_val = Num real | Str string

definition field_val :: "sort_field \<Rightarrow> RunResultDetail \<Rightarrow> js_val" where
  "field_val f a =
     (case f of F_model \<Rightarrow> Str (model a) | F_score \<Rightarrow> Num (of_int (score a))
      | F_completedWaves \<Rightarrow> Num (of_int (completedWaves a))
      | F_batches \<Rightarrow> Num (of_int (batches a)) | F_time \<Rightarrow> Num (time a))"

text \<open>The relational operator \<^verbatim>\<open><\<close> on two strings compares code units
  lexicographically; on two numbers it is the numeric order. Both operands of the
  comparator are read from the same field, so mixed operands do not occur.\<close>

fun str_lt :: "string \<Rightarrow> string \<Rightarrow> bool" where
  "str_lt [] [] = False"
| "str_lt [] (y # ys) = True"
| "str_lt (x # xs) [] = False"
| "str_lt (x # xs) (y # ys) =
     (if (of_char x :: nat) < of_char y then True
      else if (of_char y :: nat) < of_char x then False
      else str_lt xs ys)"

fun js_lt :: "js_val \<Rightarrow> js_val \<Rightarrow> bool" where
  "js_lt (Num a) (Num b) = (a < b)"
| "js_lt (Str a) (Str b) = str_lt a b"
| "js_lt _ _ = False"

text \<open>The comparator passed to \<^verbatim>\<open>sort\<close>. The selected fields are never
  \<^verbatim>\<open>undefined\<close>, so the branch returning 0 for an undefined value is not taken.\<close>

definition compareRows :: "sort_field \<Rightarrow> bool \<Rightarrow> RunResultDetail \<Rightarrow> RunResultDetail \<Rightarrow> int" where
  "compareRows sortField sortAsc a b =
     (let valA = field_val sortField a; valB = field_val sortField b in
      if \<not> verified a \<and> verified b then 1
      else if verified a \<and> \<not> verified b then -1
      else if js_lt valA valB then (if sortAsc then -1 else 1)
      else if js_lt valB valA then (if sortAsc then 1 else -1)
      else 0)"

text \<open>\<^verbatim>\<open>Array.prototype.sort\<close> belongs to the language: it is stable, and orders the
  elements by the comparator. The model is the stable insertion sort.\<close>

fun insert_by :: "('a \<Rightarrow> 'a \<Rightarrow> int) \<Rightarrow> 'a \<Rightarrow> 'a list \<Rightarrow> 'a list" where
  "insert_by cmp x [] = [x]"
| "insert_by cmp x (y # ys) =
     (if cmp x y \<le> 0 then x # y # ys else y # insert_by cmp x ys)"

definition js_sort :: "('a \<Rightarrow> 'a \<Rightarrow> int) \<Rightarrow> 'a list \<Rightarrow> 'a list" where
  "js_sort cmp xs = foldr (insert_by cmp) xs []"

definition sortedResults :: "sort_field \<Rightarrow> bool \<Rightarrow> RunResultDetail list \<Rightarrow> RunResultDetail list" where
  "sortedResults sortField sortAsc results = js_sort (compareRows sortField sortAsc) results"

text \<open>The initial values of the two pieces of sort state.\<close>

definition initial_sortField :: sort_field where
  "initial_sortField = F_score"

definition initial_sortAsc :: bool where
  "initial_sortAsc = True"

section \<open>String helpers of the language\<close>

abbreviation NL :: char where
  "NL \<equiv> CHR 0x0A"






text \<open>\<^verbatim>\<open>xs.join(sep)\<close> on strings.\<close>

fun join :: "string \<Rightarrow> string list \<Rightarrow> string" where
  "join sep [] = []"
| "join sep [x] = x"
| "join sep (x # y # ys) = x @ sep @ join sep (y # ys)"

section \<open>JSON values\<close>

text \<open>The values \<^verbatim>\<open>JSON.parse\<close> returns and \<^verbatim>\<open>JSON.stringify\<close> takes. The two
  functions belong to the language; the model takes them as parameters, \<open>None\<close> standing
  for the \<^verbatim>\<open>SyntaxError\<close> that \<^verbatim>\<open>JSON.parse\<close> throws.\<close>

datatype json = JNull | JBool bool | JNum real | JStr string
  | JArr "json list" | JObj "(string \<times> json) list"

section \<open>The worker (workers/pyodide.worker.ts)\<close>

text \<open>The files of a \<^verbatim>\<open>RUN\<close> message carry a name and a content; the files of the
  application (\<^verbatim>\<open>BenchmarkFile\<close>, \<^verbatim>\<open>LevelFile\<close>) have the optional \<^verbatim>\<open>readOnly\<close> too.\<close>

record PlainFile =
  file_name :: string
  content :: string

record BenchmarkFile = PlainFile +
  readOnly :: "bool option"

datatype request = INIT | INSTALL "string list" | RUN "PlainFile list"

datatype worker_msg =
    READY
  | OUTPUT string
  | GRAPH_DATA json
  | ERROR string
  | INSTALLED "string list"
  | INSTALL_ERROR string
  | DONE bool

subsection \<open>Output handling\<close>

definition graphPrefix :: string where
  "graphPrefix = ''__GRAPH_DATA__:''"



text \<open>The handler installed with \<^verbatim>\<open>setStderr\<close>.\<close>

definition stderrCallback :: "string \<Rightarrow> worker_msg list" where
  "stderrCallback str = [OUTPUT (str @ [NL])]"

subsection \<open>Running files\<close>


text \<open>What \<^verbatim>\<open>runCode\<close> does, in order: files written, messages posted, programs
  started. \<open>CallPytest args\<close> is the test invocation: pytest is imported and
  \<^verbatim>\<open>pytest.main(args)\<close> called.\<close>

datatype worker_action =
    WriteFile string string
  | Post worker_msg
  | CallPytest "string list"
  | CallRunPython string

definition pythonError :: "string \<Rightarrow> worker_action list" where
  "pythonError message =
     [Post (OUTPUT ([NL, NL] @ ''--- PYTHON ERROR ---'' @ [NL] @ message @ [NL])),
      Post (DONE False)]"


text \<open>The hook carries a copy of the worker as a string and starts the worker from that
  copy. The copy handles output and selects the entry point in the same way; it differs
  in catching an exception of the test invocation on the spot, with a message of its
  own.\<close>

definition pytestError :: "bool \<Rightarrow> string \<Rightarrow> worker_action list" where
  "pytestError copy_in_hook message =
     (if copy_in_hook
      then [Post (OUTPUT (''Error: pytest not found. Ensure it is in the level packages.'' @ [NL])),
            Post (DONE False)]
      else pythonError message)"



section \<open>The session hook (hooks/usePyodide.ts)\<close>

text \<open>
  A promise is pending or resolved; the promises the hook has created are kept in a list
  and named by their index. A worker is named by its index in the list of the workers
  created so far; it is alive until terminated, and keeps the messages posted to it.
\<close>

datatype promise = Pending | ResolvedVoid | ResolvedBool bool

record worker =
  alive :: bool
  received :: "request list"

text \<open>The state and the refs of the hook (\<open>outputState\<close> is the state \<^verbatim>\<open>output\<close>). A
  closure that reads a piece of state reads the value of the render that created it;
  such values are parameters of the functions below. A setter's effect is written into
  the state at once.\<close>

record hook_state =
  isReady :: bool
  isLoading :: bool
  outputState :: string
  graphData :: "json option"
  isExecuting :: bool
  isInstalling :: bool
  fullOutputRef :: string
  workerRef :: "nat option"
  runResolveRef :: "nat option"
  readyResolveRef :: "nat option"
  installResolveRef :: "nat option"
  installedPackagesRef :: "string set"
  promises :: "promise list"
  workers :: "worker list"

definition promise_at :: "hook_state \<Rightarrow> nat \<Rightarrow> promise" where
  "promise_at h p = (if p < length (promises h) then promises h ! p else Pending)"

text \<open>Calling a promise's resolve function settles it the first time only.\<close>

definition settle :: "nat \<Rightarrow> promise \<Rightarrow> hook_state \<Rightarrow> hook_state" where
  "settle p v h =
     (if p < length (promises h) \<and> promises h ! p = Pending
      then h \<lparr> promises := (promises h)[p := v] \<rparr> else h)"

definition new_promise :: "hook_state \<Rightarrow> nat \<times> hook_state" where
  "new_promise h = (length (promises h), h \<lparr> promises := promises h @ [Pending] \<rparr>)"

definition postMessage :: "nat \<Rightarrow> request \<Rightarrow> hook_state \<Rightarrow> hook_state" where
  "postMessage w req h =
     (if w < length (workers h)
      then h \<lparr> workers := (workers h)[w := (workers h ! w) \<lparr> received := received (workers h ! w) @ [req] \<rparr>] \<rparr>
      else h)"

definition hook_appendOutput :: "string \<Rightarrow> hook_state \<Rightarrow> hook_state" where
  "hook_appendOutput text h =
     h \<lparr> fullOutputRef := fullOutputRef h @ text, outputState := outputState h @ text \<rparr>"

definition terminateWorker :: "hook_state \<Rightarrow> hook_state" where
  "terminateWorker h =
     (let h1 = (case workerRef h of
                  Some w \<Rightarrow>
                    h \<lparr> workers := (if w < length (workers h)
                                     then (workers h)[w := (workers h ! w) \<lparr> alive := False \<rparr>]
                                     else workers h),
                        workerRef := None \<rparr>
                | None \<Rightarrow> h);
          h2 = h1 \<lparr> isReady := False, isExecuting := False, isInstalling := False \<rparr>
      in case runResolveRef h2 of
           Some p \<Rightarrow> (settle p (ResolvedBool False) h2) \<lparr> runResolveRef := None \<rparr>
         | None \<Rightarrow> h2)"

text \<open>The body of the promise \<^verbatim>\<open>initPyodide\<close> returns, up to posting \<^verbatim>\<open>INIT\<close>; the result
  is the promise and the new state.\<close>

definition initPyodide :: "hook_state \<Rightarrow> nat \<times> hook_state" where
  "initPyodide h =
     (case new_promise h of
        (p, h0) \<Rightarrow>
          (let h1 = terminateWorker h0;
               h2 = h1 \<lparr> isLoading := True, readyResolveRef := Some p,
                         installedPackagesRef := {}, outputState := [], fullOutputRef := [] \<rparr>;
               w = length (workers h2);
               h3 = h2 \<lparr> workers := workers h2 @ [\<lparr> alive = True, received = [] \<rparr>],
                         workerRef := Some w \<rparr>
           in (p, postMessage w INIT h3)))"

text \<open>The handler \<^verbatim>\<open>worker.onmessage\<close>.\<close>

definition onmessage :: "hook_state \<Rightarrow> worker_msg \<Rightarrow> hook_state" where
  "onmessage h msg =
     (case msg of
        READY \<Rightarrow>
          (let h1 = h \<lparr> isReady := True, isLoading := False \<rparr> in
           case readyResolveRef h1 of
             Some p \<Rightarrow> (settle p ResolvedVoid h1) \<lparr> readyResolveRef := None \<rparr>
           | None \<Rightarrow> h1)
      | OUTPUT text \<Rightarrow> hook_appendOutput text h
      | GRAPH_DATA data \<Rightarrow> h \<lparr> graphData := Some data \<rparr>
      | ERROR message \<Rightarrow>
          (hook_appendOutput ([NL] @ ''[SYSTEM ERROR] '' @ message @ [NL]) h) \<lparr> isLoading := False \<rparr>
      | INSTALLED packages \<Rightarrow>
          (let h1 = h \<lparr> isInstalling := False,
                         installedPackagesRef := installedPackagesRef h \<union> set packages \<rparr>;
               h2 = hook_appendOutput ([NL] @ ''> Installation complete.'' @ [NL]) h1
           in case installResolveRef h2 of
                Some p \<Rightarrow> (settle p ResolvedVoid h2) \<lparr> installResolveRef := None \<rparr>
              | None \<Rightarrow> h2)
      | INSTALL_ERROR message \<Rightarrow>
          (let h1 = h \<lparr> isInstalling := False \<rparr>;
               h2 = hook_appendOutput
                      ([NL] @ ''[ERROR] Package installation failed: '' @ message @ [NL]) h1
           in case installResolveRef h2 of
                Some p \<Rightarrow> (settle p ResolvedVoid h2) \<lparr> installResolveRef := None \<rparr>
              | None \<Rightarrow> h2)
      | DONE success \<Rightarrow>
          (let h1 = h \<lparr> isExecuting := False \<rparr> in
           case runResolveRef h1 of
             Some p \<Rightarrow> (settle p (ResolvedBool success) h1) \<lparr> runResolveRef := None \<rparr>
           | None \<Rightarrow> h1))"

text \<open>\<^verbatim>\<open>stopExecution\<close> reads \<^verbatim>\<open>isExecuting\<close> and \<^verbatim>\<open>isInstalling\<close> of its render.\<close>

definition stopExecution :: "bool \<Rightarrow> bool \<Rightarrow> hook_state \<Rightarrow> hook_state" where
  "stopExecution isExecuting_c isInstalling_c h =
     (if isExecuting_c \<or> isInstalling_c
      then terminateWorker (hook_appendOutput ([NL] @ ''[SYSTEM] Execution stopped.'' @ [NL]) h)
      else h)"

text \<open>\<^verbatim>\<open>restartWorker\<close> up to its \<^verbatim>\<open>await\<close>: the promise awaited and the new state.\<close>

definition restartWorker :: "bool \<Rightarrow> bool \<Rightarrow> hook_state \<Rightarrow> nat \<times> hook_state" where
  "restartWorker isExecuting_c isInstalling_c h =
     initPyodide (stopExecution isExecuting_c isInstalling_c h)"

text \<open>\<^verbatim>\<open>installPackages\<close> and \<^verbatim>\<open>runCode\<close> read \<^verbatim>\<open>isReady\<close> of their render.\<close>

definition installPackages :: "bool \<Rightarrow> string list \<Rightarrow> hook_state \<Rightarrow> nat \<times> hook_state" where
  "installPackages isReady_c packages h =
     (case new_promise h of
        (p, h0) \<Rightarrow>
          (case workerRef h0 of
             None \<Rightarrow> (p, settle p ResolvedVoid h0)
           | Some w \<Rightarrow>
               if \<not> isReady_c then (p, settle p ResolvedVoid h0)
               else
                 (let newPackages = filter (\<lambda>q. q \<notin> installedPackagesRef h0) packages in
                  if newPackages = [] then (p, settle p ResolvedVoid h0)
                  else
                    (let h1 = h0 \<lparr> isInstalling := True, installResolveRef := Some p \<rparr>;
                         h2 = hook_appendOutput
                                (''> Installing packages: '' @ join '', '' newPackages @ ''...'' @ [NL]) h1
                     in (p, postMessage w (INSTALL newPackages) h2)))))"

definition runCode :: "bool \<Rightarrow> BenchmarkFile list \<Rightarrow> hook_state \<Rightarrow> nat \<times> hook_state" where
  "runCode isReady_c files h =
     (case new_promise h of
        (p, h0) \<Rightarrow>
          (case workerRef h0 of
             None \<Rightarrow> (p, settle p (ResolvedBool False) h0)
           | Some w \<Rightarrow>
               if \<not> isReady_c then (p, settle p (ResolvedBool False) h0)
               else
                 (let h1 = hook_appendOutput (''> Executing code...'' @ [NL]) (h0 \<lparr> isExecuting := True \<rparr>);
                      h2 = h1 \<lparr> graphData := None, runResolveRef := Some p \<rparr>;
                      plainFiles = map (\<lambda>f. \<lparr> file_name = file_name f, content = content f \<rparr>) files
                  in (p, postMessage w (RUN plainFiles) h2))))"

text \<open>While the caller awaits promise \<open>p\<close>, the live worker's messages are handled one
  after the other; the caller resumes as soon as \<open>p\<close> is settled. A terminated worker
  delivers nothing.\<close>

fun deliver :: "nat \<Rightarrow> worker_msg list \<Rightarrow> hook_state \<Rightarrow> hook_state" where
  "deliver p [] h = h"
| "deliver p (m # ms) h =
     (if workerRef h = None \<or> promise_at h p \<noteq> Pending then h
      else deliver p ms (onmessage h m))"

section \<open>The sequencer (App: runBenchmarkSequence)\<close>

text \<open>A number in a template string: the decimal digits of an integer.\<close>

fun show_nat :: "nat \<Rightarrow> string" where
  "show_nat n =
     (if n < 10 then [char_of (48 + n)] else show_nat (n div 10) @ [char_of (48 + n mod 10)])"

definition show_int :: "int \<Rightarrow> string" where
  "show_int i = (if i < 0 then CHR ''-'' # show_nat (nat (- i)) else show_nat (nat i))"

datatype run_status = IDLE | RUNNING | SUCCESS | FAILURE | TIMEOUT

text \<open>The state of the application that the sequencer reads or writes, with the hook it
  owns.\<close>

record app_state =
  hook :: hook_state
  leaderboard :: "RunResultDetail list"
  wave :: int
  isWaveRunning :: bool
  runningModelName :: "string option"
  timeLeft :: real
  benchmarkStatus :: run_status

text \<open>
  \<^verbatim>\<open>runBenchmarkSequence\<close> is a closure of one render: it reads that render's values of
  the state (the leaderboard among them) whatever is set meanwhile, while the refs and
  the updater functions passed to the setters see the current values.
\<close>

record render =
  proposals :: "ModelProposal list"
  files :: "BenchmarkFile list"
  dependencies :: string
  timeoutSecs :: real
  r_wave :: int
  r_leaderboard :: "RunResultDetail list"
  r_isReady :: bool
  r_isExecuting :: bool
  r_isInstalling :: bool


text \<open>What happens around one proposal, outside the sequencer: the value of
  \<^verbatim>\<open>isPlayingRef.current\<close> when the iteration starts, and the messages the worker delivers
  while the sequencer awaits the run, the restart and the installation after it. A run
  whose messages do not settle the run's promise is one the timer ends.\<close>

record step_env =
  playing :: bool
  run_events :: "worker_msg list"
  restart_events :: "worker_msg list"
  reinstall_events :: "worker_msg list"

definition fullName :: "ModelProposal \<Rightarrow> string" where
  "fullName proposal = modelName proposal @ '' - '' @ algorithmName proposal"


text \<open>The result the sequencer reports itself for a run that failed; the three places
  differ in the time and in the error.\<close>

definition failureResult :: "ModelProposal \<Rightarrow> real \<Rightarrow> string \<Rightarrow> RunResultDetail" where
  "failureResult proposal t message =
     \<lparr> name = fullName proposal, model = modelName proposal,
       algorithm = algorithmName proposal, version = [], batches = 0, time = t,
       verified = False, score = 0, completedWaves = 0, lastVerifiedWave = None,
       error = Some message \<rparr>"











record round_env =
  install_events :: "worker_msg list"
  step_envs :: "nat \<Rightarrow> step_env"
  playing_after :: bool


definition roundComplete :: "int \<Rightarrow> string" where
  "roundComplete w =
     [NL] @ ''>>> ROUND '' @ show_int w @ '' COMPLETE. NEXT ROUND STARTING IN 3s...'' @ [NL]"

text \<open>The end of \<^verbatim>\<open>runBenchmarkSequence\<close>, after the loop.\<close>

definition endOfRound :: "render \<Rightarrow> round_env \<Rightarrow> app_state \<Rightarrow> app_state" where
  "endOfRound r renv st =
     (let st1 =
        (if playing_after renv
         then st \<lparr> hook := hook_appendOutput (roundComplete (r_wave r)) (hook st),
                   wave := wave st + 1 \<rparr>
         else st \<lparr> benchmarkStatus := IDLE \<rparr>)
      in st1 \<lparr> isWaveRunning := False, runningModelName := None \<rparr>)"





section \<open>Reading a trace of the worker\<close>

text \<open>The programs started, and the messages posted, among the actions of the worker.\<close>

fun is_call :: "worker_action \<Rightarrow> bool" where
  "is_call (CallPytest args) = True"
| "is_call (CallRunPython src) = True"
| "is_call _ = False"

fun posts :: "worker_action list \<Rightarrow> worker_msg list" where
  "posts [] = []"
| "posts (Post m # acts) = m # posts acts"
| "posts (a # acts) = posts acts"



section \<open>Notions used in the proofs\<close>

text \<open>No failed row stands before a verified one.\<close>

definition failures_last :: "RunResultDetail list \<Rightarrow> bool" where
  "failures_last xs = sorted_wrt (\<lambda>a b. verified a \<or> \<not> verified b) xs"


text \<open>The resolver of a run points to a promise that exists, and the worker in use is
  one of the workers created.\<close>

definition hook_wf :: "hook_state \<Rightarrow> bool" where
  "hook_wf h =
     ((case runResolveRef h of Some p \<Rightarrow> p < length (promises h) | None \<Rightarrow> True) \<and>
      (case workerRef h of Some w \<Rightarrow> w < length (workers h) | None \<Rightarrow> True))"


section \<open>Concrete inputs\<close>

text \<open>The hook as \<^verbatim>\<open>useState\<close> and \<^verbatim>\<open>useRef\<close> initialise it, before any promise or worker
  exists.\<close>

definition hook_initial :: hook_state where
  "hook_initial =
     \<lparr> isReady = False, isLoading = False, outputState = [], graphData = None,
       isExecuting = False, isInstalling = False, fullOutputRef = [], workerRef = None,
       runResolveRef = None, readyResolveRef = None, installResolveRef = None,
       installedPackagesRef = {}, promises = [], workers = [] \<rparr>"

text \<open>A session that has been initialised and has reported ready.\<close>

definition hook_ready :: hook_state where
  "hook_ready = onmessage (snd (initPyodide hook_initial)) READY"









text \<open>Rows that differ in score and in the verified flag only.\<close>

definition row :: "string \<Rightarrow> int \<Rightarrow> bool \<Rightarrow> RunResultDetail" where
  "row n s v = \<lparr> name = n, model = n, algorithm = [], version = [], batches = 0, time = 0,
     verified = v, score = s, completedWaves = 0, lastVerifiedWave = None, error = None \<rparr>"

definition ranking_example :: "RunResultDetail list" where
  "ranking_example = [row ''a'' 100 True, row ''b'' 50 True, row ''c'' 999 False]"

definition ranking_example4 :: "RunResultDetail list" where
  "ranking_example4 = [row ''a'' 100 True, row ''d'' 7 False, row ''b'' 50 True, row ''c'' 999 False]"



















section \<open>Facts about findIndex\<close>



section \<open>The merge: updateLeaderboard\<close>










section \<open>The ranking: sortedResults\<close>

lemma set_insert_by: "set (insert_by cmp x ys) = insert x (set ys)"
  by (induction ys) auto

lemma mset_insert_by: "mset (insert_by cmp x ys) = add_mset x (mset ys)"
  by (induction ys) auto

lemma mset_js_sort: "mset (js_sort cmp xs) = mset xs"
  by (induction xs) (simp_all add: js_sort_def mset_insert_by)

lemma sorted_wrt_insert_by:
  assumes total: "\<And>a b. cmp a b \<le> 0 \<or> cmp b a \<le> 0"
    and trans: "\<And>a b c. cmp a b \<le> 0 \<Longrightarrow> cmp b c \<le> 0 \<Longrightarrow> cmp a c \<le> 0"
    and "sorted_wrt (\<lambda>a b. cmp a b \<le> 0) ys"
  shows "sorted_wrt (\<lambda>a b. cmp a b \<le> 0) (insert_by cmp x ys)"
  using assms(3)
proof (induction ys)
  case Nil
  then show ?case by simp
next
  case (Cons y ys)
  show ?case
  proof (cases "cmp x y \<le> 0")
    case True
    with Cons.prems show ?thesis by (auto intro: trans)
  next
    case False
    then have "cmp y x \<le> 0" using total [of x y] by simp
    with False Cons show ?thesis by (auto simp: set_insert_by)
  qed
qed

lemma sorted_wrt_js_sort:
  assumes total: "\<And>a b. cmp a b \<le> 0 \<or> cmp b a \<le> 0"
    and trans: "\<And>a b c. cmp a b \<le> 0 \<Longrightarrow> cmp b c \<le> 0 \<Longrightarrow> cmp a c \<le> 0"
  shows "sorted_wrt (\<lambda>a b. cmp a b \<le> 0) (js_sort cmp xs)"
proof (induction xs)
  case Nil
  then show ?case by (simp add: js_sort_def)
next
  case (Cons x xs)
  then show ?case
    using sorted_wrt_insert_by [of cmp "js_sort cmp xs" x, OF total trans]
    by (simp add: js_sort_def)
qed

lemma compareRows_le0_verified:
  "compareRows f asc a b \<le> 0 \<Longrightarrow> verified a \<or> \<not> verified b"
  by (auto simp: compareRows_def Let_def split: if_splits)

lemma compareRows_gt0_verified:
  "\<not> compareRows f asc a b \<le> 0 \<Longrightarrow> verified b \<or> \<not> verified a"
  by (auto simp: compareRows_def Let_def split: if_splits)

lemma failures_last_insert_by:
  assumes "failures_last ys"
  shows "failures_last (insert_by (compareRows f asc) x ys)"
  using assms unfolding failures_last_def
proof (induction ys)
  case Nil
  then show ?case by simp
next
  case (Cons y ys)
  show ?case
  proof (cases "compareRows f asc x y \<le> 0")
    case True
    from compareRows_le0_verified [OF True] True Cons.prems show ?thesis
      by auto
  next
    case False
    from compareRows_gt0_verified [OF False] False Cons show ?thesis
      by (auto simp: set_insert_by)
  qed
qed

lemma failures_last_sortedResults: "failures_last (sortedResults f asc rs)"
  by (induction rs)
    (simp_all add: sortedResults_def js_sort_def failures_last_insert_by, simp add: failures_last_def)

lemma score_cmp_total:
  "compareRows F_score True a b \<le> 0 \<or> compareRows F_score True b a \<le> 0"
  by (auto simp: compareRows_def field_val_def Let_def)

lemma score_cmp_trans:
  "compareRows F_score True a b \<le> 0 \<Longrightarrow> compareRows F_score True b c \<le> 0
   \<Longrightarrow> compareRows F_score True a c \<le> 0"
  by (auto simp: compareRows_def field_val_def Let_def split: if_splits)

lemma score_cmp_le0_score:
  "compareRows F_score True a b \<le> 0 \<Longrightarrow> verified a = verified b \<Longrightarrow> score a \<le> score b"
  by (auto simp: compareRows_def field_val_def Let_def split: if_splits)

lemma sorted_default:
  "sorted_wrt (\<lambda>a b. compareRows F_score True a b \<le> 0) (sortedResults F_score True rs)"
  unfolding sortedResults_def
  by (rule sorted_wrt_js_sort) (rule score_cmp_total, erule (1) score_cmp_trans)

lemma failures_last_nth:
  assumes "failures_last xs" "i < j" "j < length xs" "\<not> verified (xs ! i)"
  shows "\<not> verified (xs ! j)"
  using assms unfolding failures_last_def sorted_wrt_iff_nth_less by blast

lemma default_sorted_nth:
  assumes "i < j" "j < length (sortedResults F_score True rs)"
    "verified (sortedResults F_score True rs ! i) = verified (sortedResults F_score True rs ! j)"
  shows "score (sortedResults F_score True rs ! i) \<le> score (sortedResults F_score True rs ! j)"
proof -
  have "compareRows F_score True (sortedResults F_score True rs ! i)
          (sortedResults F_score True rs ! j) \<le> 0"
    using sorted_default [of rs] assms(1,2) unfolding sorted_wrt_iff_nth_less by blast
  then show ?thesis using assms(3) by (rule score_cmp_le0_score)
qed

text \<open>
  Claim C7. Whatever the sort field and direction, the sorted table is a rearrangement
  of the rows in which no failed row (\<open>verified\<close> false) stands before a verified one.
  With the initial sort state (field score, ascending), rows of equal verified flag
  stand in ascending order of score. The rows with scores 100 (verified), 50 (verified)
  and 999 (failed) come out as 50, 100, failed.
\<close>

theorem ranking_failures_last:
  "(let s = sortedResults f asc rs in
      mset s = mset rs \<and>
      (\<forall>i j. i < j \<and> j < length s \<and> \<not> verified (s ! i) \<longrightarrow> \<not> verified (s ! j))) \<and>
   (let d = sortedResults initial_sortField initial_sortAsc rs in
      \<forall>i j. i < j \<and> j < length d \<and> verified (d ! i) = verified (d ! j)
        \<longrightarrow> score (d ! i) \<le> score (d ! j)) \<and>
   map (\<lambda>e. (score e, verified e)) (sortedResults initial_sortField initial_sortAsc ranking_example)
     = [(50, True), (100, True), (999, False)]"
proof (intro conjI)
  show "let s = sortedResults f asc rs in
      mset s = mset rs \<and>
      (\<forall>i j. i < j \<and> j < length s \<and> \<not> verified (s ! i) \<longrightarrow> \<not> verified (s ! j))"
    using failures_last_nth [OF failures_last_sortedResults [of f asc rs]]
    by (auto simp: Let_def sortedResults_def mset_js_sort)
  show "let d = sortedResults initial_sortField initial_sortAsc rs in
      \<forall>i j. i < j \<and> j < length d \<and> verified (d ! i) = verified (d ! j)
        \<longrightarrow> score (d ! i) \<le> score (d ! j)"
    using default_sorted_nth [of _ _ rs]
    by (simp add: Let_def initial_sortField_def initial_sortAsc_def)
  show "map (\<lambda>e. (score e, verified e))
      (sortedResults initial_sortField initial_sortAsc ranking_example)
     = [(50, True), (100, True), (999, False)]"
    by (simp add: sortedResults_def js_sort_def compareRows_def field_val_def row_def
        ranking_example_def initial_sortField_def initial_sortAsc_def)
qed

theorem ranking_failures_last_witness:
  "(let s = sortedResults F_time False ranking_example4 in
      map name s = [''a'', ''b'', ''d'', ''c''] \<and>
      (2::nat) < 3 \<and> 3 < length s \<and> \<not> verified (s ! 2) \<and> \<not> verified (s ! 3)) \<and>
   (let d = sortedResults initial_sortField initial_sortAsc ranking_example4 in
      map score d = [50, 100, 7, 999] \<and>
      (0::nat) < 1 \<and> 1 < length d \<and> verified (d ! 0) = verified (d ! 1) \<and>
      score (d ! 0) \<le> score (d ! 1))"
  using ranking_failures_last [of F_time False ranking_example4]
  by (simp add: sortedResults_def js_sort_def compareRows_def field_val_def row_def
        ranking_example4_def initial_sortField_def initial_sortAsc_def Let_def)

section \<open>The worker: output handling\<close>




text \<open>
  Claim C10. The handler of standard error posts the chunk, followed by a line feed, as
  one \<^verbatim>\<open>OUTPUT\<close> message and never a \<^verbatim>\<open>GRAPH_DATA\<close> message; the hook appends that text
  to the output buffer and leaves the graph data alone. So a chunk of standard error
  that starts with the graph-data prefix appears in the console text.
\<close>

theorem stderr_verbatim:
  "stderrCallback str = [OUTPUT (str @ [NL])] \<and>
   (\<forall>d. GRAPH_DATA d \<notin> set (stderrCallback str)) \<and>
   fullOutputRef (foldl onmessage h (stderrCallback str)) = fullOutputRef h @ str @ [NL] \<and>
   outputState (foldl onmessage h (stderrCallback str)) = outputState h @ str @ [NL] \<and>
   graphData (foldl onmessage h (stderrCallback str)) = graphData h \<and>
   stderrCallback (graphPrefix @ ''{}'') = [OUTPUT (''__GRAPH_DATA__:{}'' @ [NL])]"
  by (simp add: stderrCallback_def onmessage_def hook_appendOutput_def graphPrefix_def)

section \<open>The worker: entry point\<close>


lemma no_call_writes [simp]:
  "filter is_call (map (\<lambda>f. WriteFile (file_name f) (content f)) fs) = []"
  by (induction fs) simp_all

lemma posts_writes [simp]:
  "posts (map (\<lambda>f. WriteFile (file_name f) (content f)) fs @ acts) = posts acts"
  by (induction fs) simp_all

lemma no_call_pythonError [simp]:
  "filter is_call (pythonError m) = []" "filter is_call (pytestError c m) = []"
  by (simp_all add: pythonError_def pytestError_def)





section \<open>The session: terminateWorker\<close>

lemma terminateWorker_idem: "terminateWorker (terminateWorker h) = terminateWorker h"
  by (cases "workerRef h"; cases "runResolveRef h")
    (simp_all add: terminateWorker_def Let_def settle_def)

lemma terminateWorker_run_promise:
  assumes "runResolveRef h = Some p" "p < length (promises h)" "promises h ! p = Pending"
  shows "promise_at (terminateWorker h) p = ResolvedBool False"
  using assms
  by (cases "workerRef h") (simp_all add: terminateWorker_def Let_def settle_def promise_at_def)

lemma terminateWorker_other_promises:
  assumes "runResolveRef h \<noteq> Some q"
  shows "promise_at (terminateWorker h) q = promise_at h q"
  using assms
  by (cases "workerRef h"; cases "runResolveRef h")
     (auto simp: terminateWorker_def Let_def settle_def promise_at_def nth_list_update)

lemma terminateWorker_refs:
  "installResolveRef (terminateWorker h) = installResolveRef h"
  "readyResolveRef (terminateWorker h) = readyResolveRef h"
  by (cases "workerRef h"; cases "runResolveRef h";
      simp add: terminateWorker_def Let_def settle_def)+

text \<open>
  Claim C4 against the code. With an installation in flight, \<^verbatim>\<open>terminateWorker\<close> leaves
  the installation's promise pending and its resolver in \<^verbatim>\<open>installResolveRef\<close>; with an
  initialisation in flight, it leaves the promise of \<^verbatim>\<open>initPyodide\<close> pending; only the
  promise of a run in flight is resolved, with false.
\<close>

theorem terminate_leaves_install_pending:
  "promise_at (snd (installPackages True [''numpy''] hook_ready))
     (fst (installPackages True [''numpy''] hook_ready)) = Pending \<and>
   installResolveRef (snd (installPackages True [''numpy''] hook_ready)) =
     Some (fst (installPackages True [''numpy''] hook_ready)) \<and>
   isInstalling (snd (installPackages True [''numpy''] hook_ready)) \<and>
   promise_at (terminateWorker (snd (installPackages True [''numpy''] hook_ready)))
     (fst (installPackages True [''numpy''] hook_ready)) = Pending \<and>
   installResolveRef (terminateWorker (snd (installPackages True [''numpy''] hook_ready))) =
     Some (fst (installPackages True [''numpy''] hook_ready)) \<and>
   \<not> isInstalling (terminateWorker (snd (installPackages True [''numpy''] hook_ready))) \<and>
   promise_at (snd (initPyodide hook_initial)) (fst (initPyodide hook_initial)) = Pending \<and>
   promise_at (terminateWorker (snd (initPyodide hook_initial))) (fst (initPyodide hook_initial))
     = Pending \<and>
   readyResolveRef (terminateWorker (snd (initPyodide hook_initial))) =
     Some (fst (initPyodide hook_initial)) \<and>
   promise_at (snd (runCode True [] hook_ready)) (fst (runCode True [] hook_ready)) = Pending \<and>
   promise_at (terminateWorker (snd (runCode True [] hook_ready))) (fst (runCode True [] hook_ready))
     = ResolvedBool False"
  by (simp add: hook_ready_def hook_initial_def initPyodide_def installPackages_def runCode_def
      new_promise_def terminateWorker_def onmessage_def settle_def promise_at_def postMessage_def
      hook_appendOutput_def Let_def)

section \<open>The sequencer: one proposal\<close>


lemma failureResult_name [simp]: "name (failureResult p t m) = fullName p"
  by (simp add: failureResult_def)





section \<open>The session: restart\<close>

text \<open>Frame facts of the hook.\<close>

lemma settle_frame [simp]:
  "workers (settle p v h) = workers h"
  "workerRef (settle p v h) = workerRef h"
  "installedPackagesRef (settle p v h) = installedPackagesRef h"
  "readyResolveRef (settle p v h) = readyResolveRef h"
  "installResolveRef (settle p v h) = installResolveRef h"
  "runResolveRef (settle p v h) = runResolveRef h"
  "length (promises (settle p v h)) = length (promises h)"
  "fullOutputRef (settle p v h) = fullOutputRef h"
  by (simp_all add: settle_def)

lemma appendOutput_frame [simp]:
  "workers (hook_appendOutput t h) = workers h"
  "workerRef (hook_appendOutput t h) = workerRef h"
  "installedPackagesRef (hook_appendOutput t h) = installedPackagesRef h"
  "readyResolveRef (hook_appendOutput t h) = readyResolveRef h"
  "installResolveRef (hook_appendOutput t h) = installResolveRef h"
  "runResolveRef (hook_appendOutput t h) = runResolveRef h"
  "promises (hook_appendOutput t h) = promises h"
  by (simp_all add: hook_appendOutput_def)

lemma onmessage_workers [simp]:
  "workers (onmessage h m) = workers h" "workerRef (onmessage h m) = workerRef h"
  by (cases m; simp add: onmessage_def Let_def split: option.splits)+

lemma deliver_workers [simp]:
  "workers (deliver p ms h) = workers h" "workerRef (deliver p ms h) = workerRef h"
  by (induction ms arbitrary: h; simp)+



lemma new_promise_frame:
  "new_promise h = (p, h0) \<Longrightarrow>
     p = length (promises h) \<and> promises h0 = promises h @ [Pending] \<and> workers h0 = workers h \<and>
     workerRef h0 = workerRef h \<and> installedPackagesRef h0 = installedPackagesRef h \<and>
     runResolveRef h0 = runResolveRef h"
  by (auto simp: new_promise_def)




lemma postMessage_frame [simp]:
  "length (workers (postMessage w req h)) = length (workers h)"
  "workerRef (postMessage w req h) = workerRef h"
  "runResolveRef (postMessage w req h) = runResolveRef h"
  "promises (postMessage w req h) = promises h"
  "installedPackagesRef (postMessage w req h) = installedPackagesRef h"
  "fullOutputRef (postMessage w req h) = fullOutputRef h"
  by (simp_all add: postMessage_def)



text \<open>The refs are well formed from the start, and every operation of the hook keeps
  them so.\<close>

lemma hook_initial_wf: "hook_wf hook_initial"
  by (simp add: hook_wf_def hook_initial_def)

lemma terminateWorker_wf: "hook_wf (terminateWorker h)"
  by (cases "workerRef h"; cases "runResolveRef h")
    (simp_all add: hook_wf_def terminateWorker_def Let_def)

lemma stopExecution_wf: "hook_wf h \<Longrightarrow> hook_wf (stopExecution a b h)"
  by (simp add: stopExecution_def terminateWorker_wf)

lemma initPyodide_wf: "hook_wf (snd (initPyodide h))"
proof -
  have "runResolveRef (terminateWorker k) = None" for k
    by (cases "workerRef k"; cases "runResolveRef k")
      (simp_all add: terminateWorker_def Let_def)
  then show ?thesis
    by (simp add: initPyodide_def new_promise_def Let_def hook_wf_def postMessage_def)
qed

lemma restartWorker_wf: "hook_wf (snd (restartWorker a b h))"
  by (simp add: restartWorker_def initPyodide_wf)

lemma installPackages_wf: "hook_wf h \<Longrightarrow> hook_wf (snd (installPackages rdy pkgs h))"
  by (auto simp: hook_wf_def installPackages_def new_promise_def Let_def split: option.splits)














section \<open>The sequencer: disqualification\<close>















lemma endOfRound_leaderboard [simp]: "leaderboard (endOfRound r renv st) = leaderboard st"
  by (simp add: endOfRound_def Let_def)







section \<open>The sequencer: placeholder rows\<close>







end
